theory Spec2Isabelle
  imports
    Main
    "HOL-Library.Word"
    "HOL-Library.Multiset"
    "HOL-Library.Char_ord"
    "HOL-Library.List_Lexorder"
begin

section \<open>The AGV guide sensor bridge (agv\_server.py)\<close>

text \<open>
  The program talks to four libraries: pyserial (port enumeration and the serial port
  behind the Modbus instrument), minimalmodbus (the instrument), python-socketio (the
  client) and logging. None of them is part of the repository. Every call the source
  makes into one of them is an event of type \<open>call\<close>, appended to a history in program
  order, and the behaviour of the libraries is a parameter \<open>env\<close>: an oracle that
  says, from the history ending in the call, whether that call raises and what a
  register read returns. Nothing is assumed about the oracle.
\<close>

subsection \<open>Exceptions\<close>

text \<open>
  Python exceptions as values. \<open>KeyboardInterrupt\<close> and \<open>SystemExit\<close> derive from
  BaseException only; the others derive from Exception, which is what
  \<^verbatim>\<open>except Exception\<close> catches.
\<close>

datatype exn =
    IndexError
  | AttributeError
  | SerialException
  | ModbusException
  | ConnectionError
  | KeyboardInterrupt
  | SystemExit int

fun is_Exception :: "exn \<Rightarrow> bool" where
  "is_Exception KeyboardInterrupt = False"
| "is_Exception (SystemExit c) = False"
| "is_Exception e = True"

subsection \<open>Calls into the libraries\<close>

datatype level = INFO | FATAL

datatype call =
    Log level string
      \<comment> \<open>\<^verbatim>\<open>log.info(msg)\<close>, \<^verbatim>\<open>log.fatal(msg)\<close>\<close>
  | Instrument string int
      \<comment> \<open>\<^verbatim>\<open>mm.Instrument(port, modbus_id)\<close>: opens the serial port\<close>
  | SetBaudrate string int
      \<comment> \<open>\<^verbatim>\<open>inst.serial.baudrate = baudrate\<close> on the instrument of that port\<close>
  | ReadRegister string nat
      \<comment> \<open>\<^verbatim>\<open>inst.read_register(address)\<close> on the instrument of that port\<close>
  | SerialClose string
      \<comment> \<open>\<^verbatim>\<open>inst.serial.close()\<close> on the instrument of that port\<close>
  | SioClient
      \<comment> \<open>\<^verbatim>\<open>socketio.Client()\<close>\<close>
  | SioConnect string
      \<comment> \<open>\<^verbatim>\<open>sio_client.connect(url)\<close>\<close>
  | SioOn string
      \<comment> \<open>\<^verbatim>\<open>sio_client.on(event, self.sio_handler)\<close>\<close>
  | SioEmit string "(string \<times> int) list"
      \<comment> \<open>\<^verbatim>\<open>sio_client.emit(event, payload)\<close>, the payload dict as an association list\<close>
  | SioWait
      \<comment> \<open>\<^verbatim>\<open>sio_client.wait()\<close>\<close>

record env =
  fails :: "call list \<Rightarrow> exn option"
    \<comment> \<open>the exception raised by the last call of the history, if it raises\<close>
  reading :: "call list \<Rightarrow> 16 word"
    \<comment> \<open>the register content a successful \<open>ReadRegister\<close> (the last call) returns\<close>

type_synonym 'a io = "call list \<Rightarrow> (exn + 'a) \<times> call list"

definition extern :: "env \<Rightarrow> call \<Rightarrow> unit io" where
  "extern E c h =
     (case fails E (h @ [c]) of
        None \<Rightarrow> (Inr (), h @ [c])
      | Some e \<Rightarrow> (Inl e, h @ [c]))"

text \<open>The logging calls of the source are recorded and never raise.\<close>

definition log_call :: "level \<Rightarrow> string \<Rightarrow> unit io" where
  "log_call lvl msg h = (Inr (), h @ [Log lvl msg])"

subsection \<open>Strings\<close>

text \<open>\<^verbatim>\<open>"{}".format(n)\<close> for an int: its decimal digits, with a minus sign when negative.\<close>

fun str_of_nat :: "nat \<Rightarrow> string" where
  "str_of_nat n =
     (if n < 10 then [char_of (48 + n)]
      else str_of_nat (n div 10) @ [char_of (48 + n mod 10)])"

declare str_of_nat.simps [simp del]

definition str_of_int :: "int \<Rightarrow> string" where
  "str_of_int i = (if i < 0 then ''-'' @ str_of_nat (nat (- i)) else str_of_nat (nat i))"

text \<open>\<^verbatim>\<open>sub in s\<close> on strings: \<open>sub\<close> occurs in \<open>s\<close> as a contiguous substring.\<close>

fun starts_with :: "string \<Rightarrow> string \<Rightarrow> bool" where
  "starts_with [] s = True"
| "starts_with (c # cs) [] = False"
| "starts_with (c # cs) (d # ds) = (c = d \<and> starts_with cs ds)"

fun str_in :: "string \<Rightarrow> string \<Rightarrow> bool" where
  "str_in sub [] = starts_with sub []"
| "str_in sub (d # ds) = (starts_with sub (d # ds) \<or> str_in sub ds)"

subsection \<open>find\_serial\_port\<close>

text \<open>
  An entry of \<^verbatim>\<open>serial.tools.list_ports.comports()\<close>, as far as the source reads it:
  \<^verbatim>\<open>p[0]\<close>, the device name, and \<^verbatim>\<open>p[1]\<close>, the description. The function takes the
  list \<^verbatim>\<open>comports()\<close> returned as its argument. \<^verbatim>\<open>sorted\<close> on a list of strings is
  the ascending lexicographic order of their characters.
\<close>

type_synonym port_info = "string \<times> string"

definition find_serial_port :: "port_info list \<Rightarrow> string list" where
  "find_serial_port comports =
     (let ports = comports;
          ports = map fst (filter (\<lambda>p. str_in '' CP210'' (snd p)) ports);
          ports = sort ports
      in ports)"

subsection \<open>AGVGuideSensor\<close>

record Instrument =
  inst_port :: string
  inst_address :: int
  inst_baudrate :: int

text \<open>
  The attribute \<^verbatim>\<open>self.inst\<close> is absent until \<^verbatim>\<open>mm.Instrument\<close> has returned; reading
  an absent attribute raises AttributeError.
\<close>

record AGVGuideSensor =
  inst :: "Instrument option"

definition AGVGuideSensor_init ::
    "env \<Rightarrow> string \<Rightarrow> int option \<Rightarrow> int option \<Rightarrow> AGVGuideSensor io" where
  "AGVGuideSensor_init E port modbus_id baudrate h =
     (let modbus_id = (case modbus_id of None \<Rightarrow> 1 | Some m \<Rightarrow> m);
          baudrate = (case baudrate of None \<Rightarrow> 115200 | Some b \<Rightarrow> b)
      in case log_call INFO
                (''Sensor port '' @ port @ '' modbus_id '' @ str_of_int modbus_id) h of
           (Inl e, h1) \<Rightarrow> (Inl e, h1)
         | (Inr _, h1) \<Rightarrow>
        (case extern E (Instrument port modbus_id) h1 of
           (Inl e, h2) \<Rightarrow> (Inl e, h2)
         | (Inr _, h2) \<Rightarrow>
        (case extern E (SetBaudrate port baudrate) h2 of
           (Inl e, h3) \<Rightarrow> (Inl e, h3)
         | (Inr _, h3) \<Rightarrow>
             (Inr \<lparr>inst = Some \<lparr>inst_port = port, inst_address = modbus_id,
                                inst_baudrate = baudrate\<rparr>\<rparr>, h3))))"

text \<open>
  \<^verbatim>\<open>value\<close>: the register content is a 16-bit word, handed to Python as the
  non-negative int it denotes.
\<close>

definition AGVGuideSensor_value :: "env \<Rightarrow> AGVGuideSensor \<Rightarrow> int io" where
  "AGVGuideSensor_value E self h =
     (case inst self of
        None \<Rightarrow> (Inl AttributeError, h)
      | Some i \<Rightarrow>
          (case extern E (ReadRegister (inst_port i) 0x28) h of
             (Inl e, h1) \<Rightarrow> (Inl e, h1)
           | (Inr _, h1) \<Rightarrow> (Inr (uint (reading E h1)), h1)))"

text \<open>
  \<^verbatim>\<open>__del__\<close>: the body of the \<^verbatim>\<open>try\<close>, then the handler
  \<^verbatim>\<open>except Exception: pass\<close>.
\<close>

definition AGVGuideSensor_del :: "env \<Rightarrow> AGVGuideSensor \<Rightarrow> unit io" where
  "AGVGuideSensor_del E self h =
     (case (case inst self of
              None \<Rightarrow> (Inl AttributeError, h)
            | Some i \<Rightarrow> extern E (SerialClose (inst_port i)) h) of
        (Inl e, h1) \<Rightarrow> (if is_Exception e then (Inr (), h1) else (Inl e, h1))
      | (Inr _, h1) \<Rightarrow> (Inr (), h1))"

subsection \<open>AGVServer\<close>

text \<open>
  The client object \<^verbatim>\<open>self.sio_client\<close> holds nothing the source reads; its calls are
  the \<open>Sio\<close> events of the history.
\<close>

record AGVServer =
  sensor :: AGVGuideSensor
  socketio_request_event_name :: string

definition AGVServer_init :: "env \<Rightarrow> string \<Rightarrow> string \<Rightarrow> string \<Rightarrow> AGVServer io" where
  "AGVServer_init E socketio_server_url request_event_name serial_port h =
     (case AGVGuideSensor_init E serial_port None None h of
        (Inl e, h1) \<Rightarrow> (Inl e, h1)
      | (Inr s, h1) \<Rightarrow>
     (case extern E SioClient h1 of
        (Inl e, h2) \<Rightarrow> (Inl e, h2)
      | (Inr _, h2) \<Rightarrow>
     (case extern E (SioConnect socketio_server_url) h2 of
        (Inl e, h3) \<Rightarrow> (Inl e, h3)
      | (Inr _, h3) \<Rightarrow>
     (case extern E (SioOn request_event_name) h3 of
        (Inl e, h4) \<Rightarrow> (Inl e, h4)
      | (Inr _, h4) \<Rightarrow>
          (Inr \<lparr>sensor = s, socketio_request_event_name = request_event_name\<rparr>, h4)))))"

definition sio_handler :: "env \<Rightarrow> AGVServer \<Rightarrow> unit io" where
  "sio_handler E self h =
     (case AGVGuideSensor_value E (sensor self) h of
        (Inl e, h1) \<Rightarrow> (Inl e, h1)
      | (Inr v, h1) \<Rightarrow>
          (let ret = [(''value'', v)];
               event_name = socketio_request_event_name self @ ''Response''
           in extern E (SioEmit event_name ret) h1))"

subsection \<open>main\<close>

definition socketio_server_url :: string where
  "socketio_server_url = ''http://localhost:8080''"

definition socketio_request_event_name_config :: string where
  "socketio_request_event_name_config = ''AGVGuideSensor''"

text \<open>\<^verbatim>\<open>xs[0]\<close> raises IndexError on the empty list.\<close>

definition index0 :: "'a list \<Rightarrow> exn + 'a" where
  "index0 xs = (case xs of [] \<Rightarrow> Inl IndexError | x # _ \<Rightarrow> Inr x)"

text \<open>
  \<^verbatim>\<open>exit(-1)\<close> raises \<open>SystemExit (-1)\<close>, which nothing in \<^verbatim>\<open>main\<close> catches; the
  \<^verbatim>\<open>try\<close> covers the first statement only and catches IndexError only.
\<close>

definition main :: "env \<Rightarrow> port_info list \<Rightarrow> unit io" where
  "main E comports h =
     (case index0 (find_serial_port comports) of
        Inl e \<Rightarrow>
          (if e = IndexError then
             (case log_call FATAL ''No serial ports detected. Exiting.'' h of
                (Inl e', h1) \<Rightarrow> (Inl e', h1)
              | (Inr _, h1) \<Rightarrow> (Inl (SystemExit (- 1)), h1))
           else (Inl e, h))
      | Inr port \<Rightarrow>
     (case AGVServer_init E socketio_server_url socketio_request_event_name_config port h of
        (Inl e, h1) \<Rightarrow> (Inl e, h1)
      | (Inr server, h1) \<Rightarrow>
     (case log_call INFO ''AGVServer init finished'' h1 of
        (Inl e, h2) \<Rightarrow> (Inl e, h2)
      | (Inr _, h2) \<Rightarrow> extern E SioWait h2)))"

subsection \<open>Requests delivered concurrently\<close>






subsection \<open>Concrete inputs\<close>

text \<open>
  A sensor on port COM1 as \<^verbatim>\<open>AGVGuideSensor("COM1")\<close> builds it, the server around it
  under the configured event name, and four behaviours of the libraries: every call
  succeeds and the register holds \<open>0x1234\<close>; the first register read of the run
  raises; the connection to the socket.io server is refused; closing the serial port
  raises.
\<close>

definition inst_COM1 :: Instrument where
  "inst_COM1 = \<lparr>inst_port = ''COM1'', inst_address = 1, inst_baudrate = 115200\<rparr>"

definition sensor_COM1 :: AGVGuideSensor where
  "sensor_COM1 = \<lparr>inst = Some inst_COM1\<rparr>"

definition server_COM1 :: AGVServer where
  "server_COM1 = \<lparr>sensor = sensor_COM1, socketio_request_event_name = ''AGVGuideSensor''\<rparr>"

definition env_ok :: env where
  "env_ok = \<lparr>fails = (\<lambda>h. None), reading = (\<lambda>h. 0x1234)\<rparr>"

definition env_read_fails_once :: env where
  "env_read_fails_once =
     \<lparr>fails = (\<lambda>h. if h = [ReadRegister ''COM1'' 0x28] then Some ModbusException else None),
      reading = (\<lambda>h. 0x1234)\<rparr>"

definition env_connect_refused :: env where
  "env_connect_refused =
     \<lparr>fails = (\<lambda>h. case rev h of SioConnect u # _ \<Rightarrow> Some ConnectionError | _ \<Rightarrow> None),
      reading = (\<lambda>h. 0)\<rparr>"

definition env_close_fails :: env where
  "env_close_fails =
     \<lparr>fails = (\<lambda>h. case rev h of SerialClose p # _ \<Rightarrow> Some SerialException | _ \<Rightarrow> None),
      reading = (\<lambda>h. 0)\<rparr>"

section \<open>Properties\<close>

subsection \<open>Auxiliary facts\<close>

lemma starts_with_iff: "starts_with sub s \<longleftrightarrow> (\<exists>suf. s = sub @ suf)"
  by (induction sub s rule: starts_with.induct) auto

lemma str_in_iff: "str_in sub s \<longleftrightarrow> (\<exists>pre suf. s = pre @ sub @ suf)"
proof (induction s)
  case Nil
  show ?case by (simp add: starts_with_iff)
next
  case (Cons d ds)
  show ?case
  proof
    assume "str_in sub (d # ds)"
    then consider "starts_with sub (d # ds)" | "str_in sub ds" by auto
    then show "\<exists>pre suf. d # ds = pre @ sub @ suf"
    proof cases
      case 1
      then obtain suf where "d # ds = sub @ suf" by (auto simp: starts_with_iff)
      then have "d # ds = [] @ sub @ suf" by simp
      then show ?thesis by blast
    next
      case 2
      then obtain pre suf where "ds = pre @ sub @ suf" using Cons.IH by blast
      then have "d # ds = (d # pre) @ sub @ suf" by simp
      then show ?thesis by blast
    qed
  next
    assume "\<exists>pre suf. d # ds = pre @ sub @ suf"
    then obtain pre suf where eq: "d # ds = pre @ sub @ suf" by blast
    show "str_in sub (d # ds)"
    proof (cases pre)
      case Nil
      with eq have "starts_with sub (d # ds)" by (auto simp: starts_with_iff)
      then show ?thesis by simp
    next
      case (Cons p ps)
      with eq have "ds = ps @ sub @ suf" by simp
      then have "str_in sub ds" using Cons.IH by blast
      then show ?thesis by simp
    qed
  qed
qed

lemma str_of_int_1: "str_of_int 1 = ''1''"
  by code_simp

lemma extern_None: "fails E (h @ [c]) = None \<Longrightarrow> extern E c h = (Inr (), h @ [c])"
  by (simp add: extern_def)

lemma extern_Some: "fails E (h @ [c]) = Some e \<Longrightarrow> extern E c h = (Inl e, h @ [c])"
  by (simp add: extern_def)

lemma snd_extern: "snd (extern E c h) = h @ [c]"
  by (simp add: extern_def split: option.splits)

lemma fst_extern:
  "fst (extern E c h) = (case fails E (h @ [c]) of None \<Rightarrow> Inr () | Some e \<Rightarrow> Inl e)"
  by (simp add: extern_def split: option.splits)

subsection \<open>The request handler\<close>

text \<open>
  C2. When the handler runs on a server whose sensor has its instrument and the register
  read does not raise, the handler makes exactly two calls: one read of register
  \<open>0x28\<close> and one \<^verbatim>\<open>emit\<close>, whose event name is the request event name followed by
  \<open>Response\<close> and whose payload is the dict with the single key \<open>value\<close> bound to the
  reading. A register holding \<open>0x1234\<close> gives the payload value 4660. When the
  \<^verbatim>\<open>emit\<close> does not raise either, the handler returns normally.
\<close>

theorem sio_handler_emits_response:
  assumes "inst (sensor self) = Some i"
    and "fails E (h @ [ReadRegister (inst_port i) 0x28]) = None"
  shows "snd (sio_handler E self h) =
           h @ [ReadRegister (inst_port i) 0x28,
                SioEmit (socketio_request_event_name self @ ''Response'')
                  [(''value'', uint (reading E (h @ [ReadRegister (inst_port i) 0x28])))]]
       \<and> (reading E (h @ [ReadRegister (inst_port i) 0x28]) = 0x1234 \<longrightarrow>
            snd (sio_handler E self h) =
              h @ [ReadRegister (inst_port i) 0x28,
                   SioEmit (socketio_request_event_name self @ ''Response'') [(''value'', 4660)]])
       \<and> (fails E (snd (sio_handler E self h)) = None \<longrightarrow> fst (sio_handler E self h) = Inr ())"
  using assms
  by (simp add: sio_handler_def AGVGuideSensor_value_def extern_None snd_extern fst_extern)

theorem sio_handler_emits_response_witness:
  "inst (sensor server_COM1) = Some inst_COM1
   \<and> fails env_ok ([] @ [ReadRegister (inst_port inst_COM1) 0x28]) = None
   \<and> sio_handler env_ok server_COM1 [] =
       (Inr (), [ReadRegister ''COM1'' 0x28, SioEmit ''AGVGuideSensorResponse'' [(''value'', 4660)]])"
  using sio_handler_emits_response [of server_COM1 inst_COM1 env_ok "[]"]
  by (simp add: server_COM1_def sensor_COM1_def inst_COM1_def env_ok_def
        sio_handler_def AGVGuideSensor_value_def extern_def)

text \<open>
  C4, as the claim states it, fails: the handler has no \<^verbatim>\<open>try\<close>. When the register read
  raises ModbusException, that exception leaves the handler, and the only call made is
  the read: nothing is logged.
\<close>

theorem sio_handler_read_error_counterexample:
  "sio_handler env_read_fails_once server_COM1 [] =
     (Inl ModbusException, [ReadRegister ''COM1'' 0x28])"
  by (simp add: server_COM1_def sensor_COM1_def inst_COM1_def env_read_fails_once_def
        sio_handler_def AGVGuideSensor_value_def extern_def)

text \<open>
  C4, amended. When the register read raises, the handler makes no \<^verbatim>\<open>emit\<close> call and no
  logging call, and the exception of the read leaves the handler unchanged. The server
  object is not modified: when the handler runs again and this second read does not
  raise, it emits the response for the second reading.
\<close>

theorem sio_handler_read_error_propagates:
  assumes "inst (sensor self) = Some i"
    and "fails E (h @ [ReadRegister (inst_port i) 0x28]) = Some e"
  shows "sio_handler E self h = (Inl e, h @ [ReadRegister (inst_port i) 0x28])
       \<and> (fails E (h @ [ReadRegister (inst_port i) 0x28, ReadRegister (inst_port i) 0x28]) = None \<longrightarrow>
            snd (sio_handler E self (snd (sio_handler E self h))) =
              h @ [ReadRegister (inst_port i) 0x28, ReadRegister (inst_port i) 0x28,
                   SioEmit (socketio_request_event_name self @ ''Response'')
                     [(''value'', uint (reading E
                        (h @ [ReadRegister (inst_port i) 0x28, ReadRegister (inst_port i) 0x28])))]])"
  using assms
  by (simp add: sio_handler_def AGVGuideSensor_value_def extern_None extern_Some snd_extern)

theorem sio_handler_read_error_propagates_witness:
  "inst (sensor server_COM1) = Some inst_COM1
   \<and> fails env_read_fails_once ([] @ [ReadRegister (inst_port inst_COM1) 0x28]) = Some ModbusException
   \<and> sio_handler env_read_fails_once server_COM1 [] =
        (Inl ModbusException, [ReadRegister ''COM1'' 0x28])
   \<and> snd (sio_handler env_read_fails_once server_COM1
            (snd (sio_handler env_read_fails_once server_COM1 []))) =
        [ReadRegister ''COM1'' 0x28, ReadRegister ''COM1'' 0x28,
         SioEmit ''AGVGuideSensorResponse'' [(''value'', 4660)]]"
  using sio_handler_read_error_propagates
          [of server_COM1 inst_COM1 env_read_fails_once "[]" ModbusException]
  by (simp add: server_COM1_def sensor_COM1_def inst_COM1_def env_read_fails_once_def
        sio_handler_def AGVGuideSensor_value_def extern_def)

subsection \<open>Startup without a serial port\<close>

text \<open>
  C5. When \<^verbatim>\<open>find_serial_port\<close> returns the empty list, \<^verbatim>\<open>main\<close> makes one call, the
  fatal log message, and ends with \<open>SystemExit (-1)\<close>, an exit code other than 0. No
  call of the construction of the sensor or of the server (\<open>Instrument\<close>,
  \<open>SioClient\<close>, \<open>SioConnect\<close>, \<open>SioOn\<close>) is made.
\<close>

theorem main_no_serial_port:
  "find_serial_port comports = [] \<Longrightarrow>
     main E comports h =
       (Inl (SystemExit (- 1)), h @ [Log FATAL ''No serial ports detected. Exiting.''])"
  by (simp add: main_def index0_def log_call_def)

theorem main_no_serial_port_witness:
  "find_serial_port [(''COM3'', ''X'')] = []
   \<and> main env_ok [(''COM3'', ''X'')] [] =
       (Inl (SystemExit (- 1)), [Log FATAL ''No serial ports detected. Exiting.''])"
  using main_no_serial_port [of "[(''COM3'', ''X'')]" env_ok "[]"]
  by (simp add: find_serial_port_def)

subsection \<open>Closing the sensor\<close>

text \<open>
  C7. \<^verbatim>\<open>__del__\<close> never ends with an exception of class Exception, whatever the sensor
  object holds (an instrument or none), whatever the history and whatever the close call
  does; and a second \<^verbatim>\<open>__del__\<close> right after the first does not either.
\<close>

theorem AGVGuideSensor_del_swallows:
  "is_Exception e \<Longrightarrow>
     fst (AGVGuideSensor_del E self h) \<noteq> Inl e
     \<and> fst (AGVGuideSensor_del E self (snd (AGVGuideSensor_del E self h))) \<noteq> Inl e"
  by (auto simp: AGVGuideSensor_del_def extern_def split: option.splits prod.splits sum.splits)

theorem AGVGuideSensor_del_swallows_witness:
  "is_Exception SerialException
   \<and> AGVGuideSensor_del env_close_fails sensor_COM1 [] = (Inr (), [SerialClose ''COM1''])
   \<and> fst (AGVGuideSensor_del env_close_fails sensor_COM1 []) \<noteq> Inl SerialException
   \<and> fst (AGVGuideSensor_del env_close_fails sensor_COM1
            (snd (AGVGuideSensor_del env_close_fails sensor_COM1 []))) \<noteq> Inl SerialException"
  using AGVGuideSensor_del_swallows [of SerialException env_close_fails sensor_COM1 "[]"]
  by (simp add: AGVGuideSensor_del_def extern_def env_close_fails_def sensor_COM1_def inst_COM1_def)

subsection \<open>The endpoint locator\<close>

text \<open>
  C1, as the claim states it, fails on its example: the marker the source searches for is
  \<open>'' CP210''\<close>, six characters of which the first is a space, and neither \<open>CP210x\<close>
  nor \<open>CP2102\<close> contains a space.
\<close>

theorem find_serial_port_example_counterexample:
  "find_serial_port [(''COM3'', ''X''), (''COM1'', ''CP210x''), (''COM2'', ''CP2102'')]
     \<noteq> [''COM1'', ''COM2'']"
  by (simp add: find_serial_port_def)

text \<open>
  C1, amended. For every list of (device, description) pairs, \<^verbatim>\<open>find_serial_port\<close>
  returns the devices of the entries whose description contains the substring
  \<open>'' CP210''\<close> (a space, then \<open>CP210\<close>), each as often as it is listed, in ascending
  lexicographic order. For the descriptions \<open>X\<close>, \<open>CP210x\<close>, \<open>CP2102\<close> the result is
  empty; with a space in front of the last two it is COM1, COM2.
\<close>

theorem find_serial_port_marker:
  "sorted (find_serial_port comports)
   \<and> mset (find_serial_port comports) =
       image_mset fst
         (filter_mset (\<lambda>p. \<exists>pre suf. snd p = pre @ '' CP210'' @ suf) (mset comports))
   \<and> find_serial_port [(''COM3'', ''X''), (''COM1'', ''CP210x''), (''COM2'', ''CP2102'')] = []
   \<and> find_serial_port [(''COM3'', ''X''), (''COM1'', '' CP210x''), (''COM2'', '' CP2102'')]
       = [''COM1'', ''COM2'']"
proof (intro conjI)
  show "sorted (find_serial_port comports)"
    by (simp add: find_serial_port_def)
  show "mset (find_serial_port comports) =
          image_mset fst
            (filter_mset (\<lambda>p. \<exists>pre suf. snd p = pre @ '' CP210'' @ suf) (mset comports))"
    by (simp add: find_serial_port_def str_in_iff)
  show "find_serial_port [(''COM3'', ''X''), (''COM1'', ''CP210x''), (''COM2'', ''CP2102'')] = []"
    by (simp add: find_serial_port_def)
  show "find_serial_port [(''COM3'', ''X''), (''COM1'', '' CP210x''), (''COM2'', '' CP2102'')]
          = [''COM1'', ''COM2'']"
    by code_simp
qed

text \<open>
  C9. The result of \<^verbatim>\<open>find_serial_port\<close> depends only on which entries the enumeration
  returned and how often, not on their order: two enumerations with the same entries give
  the same list.
\<close>

theorem find_serial_port_deterministic:
  assumes "mset comports = mset comports'"
  shows "find_serial_port comports = find_serial_port comports'"
proof -
  let ?f = "\<lambda>zs. map fst (filter (\<lambda>p. str_in '' CP210'' (snd p)) zs)"
  have "mset (?f comports) = mset (?f comports')"
    by (simp add: assms)
  then have "sort (?f comports) = sort (?f comports')"
    by (intro properties_for_sort) simp_all
  then show ?thesis by (simp add: find_serial_port_def)
qed

theorem find_serial_port_deterministic_witness:
  "mset [(''COM2'', '' CP2102''), (''COM1'', '' CP210x'')]
     = mset [(''COM1'', '' CP210x''), (''COM2'', '' CP2102'')]
   \<and> find_serial_port [(''COM2'', '' CP2102''), (''COM1'', '' CP210x'')]
     = find_serial_port [(''COM1'', '' CP210x''), (''COM2'', '' CP2102'')]"
  using find_serial_port_deterministic
    [of "[(''COM2'', '' CP2102''), (''COM1'', '' CP210x'')]"
        "[(''COM1'', '' CP210x''), (''COM2'', '' CP2102'')]"]
  by simp

subsection \<open>Opening and reading the sensor\<close>

text \<open>
  C8. \<^verbatim>\<open>AGVGuideSensor(port)\<close>, when it returns, has opened the instrument with Modbus id
  1 and set the baud rate 115200, and holds an instrument with these values. \<^verbatim>\<open>value\<close>
  on a sensor with its instrument makes exactly one call, a read of register \<open>0x28\<close>,
  and what it returns is the register content as an int from 0 to 65535.
\<close>

theorem AGVGuideSensor_defaults_and_read:
  "(AGVGuideSensor_init E port None None h = (Inr s, h') \<longrightarrow>
      inst s = Some \<lparr>inst_port = port, inst_address = 1, inst_baudrate = 115200\<rparr>
      \<and> h' = h @ [Log INFO (''Sensor port '' @ port @ '' modbus_id 1''),
                  Instrument port 1, SetBaudrate port 115200])
   \<and> (inst self = Some i \<longrightarrow>
      snd (AGVGuideSensor_value E self h) = h @ [ReadRegister (inst_port i) 0x28]
      \<and> (fst (AGVGuideSensor_value E self h) = Inr v \<longrightarrow>
           v = uint (reading E (h @ [ReadRegister (inst_port i) 0x28]))
           \<and> 0 \<le> v \<and> v < 2 ^ 16))"
proof (intro conjI impI)
  assume a: "AGVGuideSensor_init E port None None h = (Inr s, h')"
  then show "inst s = Some \<lparr>inst_port = port, inst_address = 1, inst_baudrate = 115200\<rparr>"
    by (auto simp: AGVGuideSensor_init_def log_call_def extern_def split: option.splits)
  from a show "h' = h @ [Log INFO (''Sensor port '' @ port @ '' modbus_id 1''),
                  Instrument port 1, SetBaudrate port 115200]"
    by (auto simp: AGVGuideSensor_init_def log_call_def extern_def str_of_int_1 split: option.splits)
next
  assume i: "inst self = Some i"
  then show "snd (AGVGuideSensor_value E self h) = h @ [ReadRegister (inst_port i) 0x28]"
    by (simp add: AGVGuideSensor_value_def extern_def split: option.splits)
  assume v: "fst (AGVGuideSensor_value E self h) = Inr v"
  with i show veq: "v = uint (reading E (h @ [ReadRegister (inst_port i) 0x28]))"
    by (auto simp: AGVGuideSensor_value_def extern_def split: option.splits)
  show "0 \<le> v" by (simp add: veq)
  have "uint (reading E (h @ [ReadRegister (inst_port i) 0x28])) < 2 ^ LENGTH(16)"
    by (rule uint_lt2p)
  then show "v < 2 ^ 16" by (simp add: veq)
qed

theorem AGVGuideSensor_defaults_and_read_witness:
  "AGVGuideSensor_init env_ok ''COM1'' None None [] =
     (Inr sensor_COM1,
      [Log INFO ''Sensor port COM1 modbus_id 1'', Instrument ''COM1'' 1, SetBaudrate ''COM1'' 115200])
   \<and> inst sensor_COM1 = Some inst_COM1
   \<and> AGVGuideSensor_value env_ok sensor_COM1 [] = (Inr 4660, [ReadRegister ''COM1'' 0x28])
   \<and> (0::int) \<le> 4660 \<and> (4660::int) < 2 ^ 16"
  using AGVGuideSensor_defaults_and_read
    [of env_ok "''COM1''" "[]" sensor_COM1
        "[Log INFO ''Sensor port COM1 modbus_id 1'', Instrument ''COM1'' 1, SetBaudrate ''COM1'' 115200]"
        sensor_COM1 inst_COM1 4660]
  by (simp add: AGVGuideSensor_init_def AGVGuideSensor_value_def log_call_def extern_def
        env_ok_def sensor_COM1_def inst_COM1_def str_of_int_1)

subsection \<open>Constructing the server\<close>

text \<open>
  The constructor of the sensor with both optional arguments absent, as one case
  distinction on what the two library calls do.
\<close>

lemma AGVGuideSensor_init_cases:
  "AGVGuideSensor_init E port None None h =
     (let h1 = h @ [Log INFO (''Sensor port '' @ port @ '' modbus_id 1''), Instrument port 1];
          h2 = h1 @ [SetBaudrate port 115200]
      in case fails E h1 of
           Some e \<Rightarrow> (Inl e, h1)
         | None \<Rightarrow>
             (case fails E h2 of
                Some e \<Rightarrow> (Inl e, h2)
              | None \<Rightarrow>
                  (Inr \<lparr>inst = Some \<lparr>inst_port = port, inst_address = 1,
                                      inst_baudrate = 115200\<rparr>\<rparr>, h2)))"
  by (simp add: AGVGuideSensor_init_def log_call_def extern_def str_of_int_1 Let_def
        split: option.splits)

text \<open>
  C10. \<^verbatim>\<open>AGVServer.__init__\<close> begins with the calls of \<^verbatim>\<open>AGVGuideSensor(serial_port)\<close>,
  the constructor with neither a Modbus id nor a baud rate given; when it returns a
  server, the sensor of that server is the one this constructor returned, and its
  instrument has Modbus id 1 and baud rate 115200. The parameters of
  \<^verbatim>\<open>AGVServer.__init__\<close> are the URL, the event name and the port only.
\<close>

theorem AGVServer_init_default_sensor:
  "(\<exists>rest. snd (AGVServer_init E url name port h) =
             snd (AGVGuideSensor_init E port None None h) @ rest)
   \<and> (fst (AGVServer_init E url name port h) = Inr srv \<longrightarrow>
        fst (AGVGuideSensor_init E port None None h) = Inr (sensor srv)
        \<and> inst (sensor srv) =
            Some \<lparr>inst_port = port, inst_address = 1, inst_baudrate = 115200\<rparr>)"
  by (auto simp: AGVServer_init_def AGVGuideSensor_init_cases extern_def Let_def
        split: option.splits)

theorem AGVServer_init_default_sensor_witness:
  "AGVServer_init env_ok ''http://localhost:8080'' ''AGVGuideSensor'' ''COM1'' [] =
     (Inr server_COM1,
      [Log INFO ''Sensor port COM1 modbus_id 1'', Instrument ''COM1'' 1,
       SetBaudrate ''COM1'' 115200, SioClient, SioConnect ''http://localhost:8080'',
       SioOn ''AGVGuideSensor''])
   \<and> fst (AGVGuideSensor_init env_ok ''COM1'' None None []) = Inr (sensor server_COM1)
   \<and> inst (sensor server_COM1) =
       Some \<lparr>inst_port = ''COM1'', inst_address = 1, inst_baudrate = 115200\<rparr>"
  using AGVServer_init_default_sensor
    [of env_ok "''http://localhost:8080''" "''AGVGuideSensor''" "''COM1''" "[]" server_COM1]
  by (simp add: AGVServer_init_def AGVGuideSensor_init_cases extern_def Let_def
        env_ok_def server_COM1_def sensor_COM1_def inst_COM1_def)

text \<open>
  C6, as the claim states it, fails: when the connection to the socket.io server is
  refused, the exception leaves the constructor after the serial port of COM1 has been
  opened, and no call closing it has been made.
\<close>

theorem AGVServer_init_connect_refused_counterexample:
  "AGVServer_init env_connect_refused ''http://localhost:8080'' ''AGVGuideSensor'' ''COM1'' [] =
     (Inl ConnectionError,
      [Log INFO ''Sensor port COM1 modbus_id 1'', Instrument ''COM1'' 1,
       SetBaudrate ''COM1'' 115200, SioClient, SioConnect ''http://localhost:8080''])"
  by (simp add: AGVServer_init_def AGVGuideSensor_init_cases extern_def Let_def
        env_connect_refused_def)

text \<open>
  C6, amended. The constructor makes no call that closes the serial port, whether it
  fails or not. When it fails, the exception it ends with is the one raised by the last
  library call it made, unchanged, and there is no server object. It returns a server
  only after all of its calls (opening the instrument, setting the baud rate, creating
  the client, connecting, registering the handler) have been made and none has raised.
\<close>

theorem AGVServer_init_failure_no_release:
  "\<exists>ext. snd (AGVServer_init E url name port h) = h @ ext
     \<and> (\<forall>q. SerialClose q \<notin> set ext)
     \<and> (\<forall>e. fst (AGVServer_init E url name port h) = Inl e \<longrightarrow> fails E (h @ ext) = Some e)
     \<and> (\<forall>srv. fst (AGVServer_init E url name port h) = Inr srv \<longrightarrow>
           ext = [Log INFO (''Sensor port '' @ port @ '' modbus_id 1''), Instrument port 1,
                  SetBaudrate port 115200, SioClient, SioConnect url, SioOn name]
           \<and> fails E (h @ take 2 ext) = None
           \<and> fails E (h @ take 3 ext) = None
           \<and> fails E (h @ take 4 ext) = None
           \<and> fails E (h @ take 5 ext) = None
           \<and> fails E (h @ ext) = None
           \<and> srv = \<lparr>sensor = \<lparr>inst = Some \<lparr>inst_port = port, inst_address = 1,
                                               inst_baudrate = 115200\<rparr>\<rparr>,
                     socketio_request_event_name = name\<rparr>)"
  by (auto simp: AGVServer_init_def AGVGuideSensor_init_cases extern_def Let_def
        split: option.splits)

theorem AGVServer_init_failure_no_release_witness:
  "snd (AGVServer_init env_connect_refused ''http://localhost:8080'' ''AGVGuideSensor'' ''COM1'' [])
     = [] @ [Log INFO ''Sensor port COM1 modbus_id 1'', Instrument ''COM1'' 1,
             SetBaudrate ''COM1'' 115200, SioClient, SioConnect ''http://localhost:8080'']
   \<and> fst (AGVServer_init env_connect_refused ''http://localhost:8080'' ''AGVGuideSensor'' ''COM1'' [])
     = Inl ConnectionError
   \<and> fails env_connect_refused
       ([] @ [Log INFO ''Sensor port COM1 modbus_id 1'', Instrument ''COM1'' 1,
              SetBaudrate ''COM1'' 115200, SioClient, SioConnect ''http://localhost:8080''])
     = Some ConnectionError
   \<and> fst (AGVServer_init env_ok ''http://localhost:8080'' ''AGVGuideSensor'' ''COM1'' [])
     = Inr server_COM1"
  using AGVServer_init_failure_no_release
    [of env_connect_refused "''http://localhost:8080''" "''AGVGuideSensor''" "''COM1''" "[]"]
  by (simp add: AGVServer_init_def AGVGuideSensor_init_cases extern_def Let_def
        env_connect_refused_def env_ok_def server_COM1_def sensor_COM1_def inst_COM1_def)

subsection \<open>Two requests at the same time\<close>








end
